theory Spec2Isabelle
  imports Main
begin

section \<open>The environment of \<open>src/pages/index.js\<close>\<close>

text \<open>
  The page is one React module: an authentication provider (the session store), a
  notification provider (the notification queue) and the dashboard (the task board).
  Its environment is the browser: \<open>fetch\<close>, \<open>response.json()\<close>, \<open>localStorage\<close>,
  \<open>Date.now\<close> and \<open>setTimeout\<close>. Each asynchronous operation issues one request; the
  model passes the outcome of that request to the operation as an argument and threads
  the state of the page through it.
\<close>

subsection \<open>Exceptions\<close>

text \<open>
  \<open>Error m\<close> is what \<open>throw new Error(v)\<close> throws, \<open>m\<close> being \<open>String(v)\<close>. A rejected
  \<open>fetch\<close> is a \<open>TypeError\<close> and a rejected \<open>response.json()\<close> a \<open>SyntaxError\<close>; their
  messages are chosen by the browser and come with the outcome of the request. Reading
  a property of \<open>null\<close> is a \<open>TypeError\<close> too, and \<open>localStorage.setItem\<close> throws a
  \<open>QuotaExceededError\<close> when the storage does not take the entry.
\<close>

datatype js_error =
  Error string | TypeError string | SyntaxError string | QuotaExceededError string

fun error_message :: "js_error \<Rightarrow> string" where
  "error_message (Error m) = m"
| "error_message (TypeError m) = m"
| "error_message (SyntaxError m) = m"
| "error_message (QuotaExceededError m) = m"

text \<open>The messages the engine gives the two errors it raises itself (as V8 words them).\<close>

definition null_read :: "string \<Rightarrow> string" where
  "null_read p = ''Cannot read properties of null (reading '' @ p @ '')''"

definition quota_exceeded :: "string \<Rightarrow> string" where
  "quota_exceeded k = ''Setting the value of '' @ k @ '' exceeded the quota.''"

subsection \<open>JSON values\<close>

text \<open>
  The value \<open>response.json()\<close> resolves to. A number is written as JavaScript prints
  it (\<open>String(n)\<close>), so that zero is \<open>0\<close> and nothing else is. \<open>undefined\<close>, which a
  property read can give, is \<open>None\<close> of \<open>json option\<close>.
\<close>

datatype json =
    JNull
  | JBool bool
  | JNum string
  | JStr string
  | JArr "json list"
  | JObj "(string \<times> json) list"

text \<open>
  \<open>v.p\<close> for a property name \<open>p\<close> that no prototype defines (the page reads \<open>error\<close>):
  a \<open>TypeError\<close> on \<open>null\<close>, the member of an object (the last one, where \<open>JSON.parse\<close>
  met the key twice), \<open>undefined\<close> on every other value.
\<close>

fun property :: "json \<Rightarrow> string \<Rightarrow> js_error + json option" where
  "property JNull p = Inl (TypeError (null_read p))"
| "property (JObj members) p = Inr (map_of (rev members) p)"
| "property (JBool b) p = Inr None"
| "property (JNum n) p = Inr None"
| "property (JStr s) p = Inr None"
| "property (JArr xs) p = Inr None"

text \<open>Truthiness: \<open>undefined\<close>, \<open>null\<close>, \<open>false\<close>, zero and the empty string are falsy.\<close>

fun truthy :: "json option \<Rightarrow> bool" where
  "truthy None = False"
| "truthy (Some JNull) = False"
| "truthy (Some (JBool b)) = b"
| "truthy (Some (JNum n)) = (n \<noteq> ''0'')"
| "truthy (Some (JStr s)) = (s \<noteq> [])"
| "truthy (Some (JArr xs)) = True"
| "truthy (Some (JObj members)) = True"

text \<open>\<open>v || d\<close>: the left operand when it is truthy, the right one otherwise.\<close>

definition js_or :: "json option \<Rightarrow> json \<Rightarrow> json" where
  "js_or v d = (case v of None \<Rightarrow> d | Some x \<Rightarrow> if truthy (Some x) then x else d)"

text \<open>
  \<open>String(v)\<close>. An array prints its elements separated by commas, \<open>null\<close> among them
  as the empty string. An object prints as \<open>[object Object]\<close>, unless it has a member
  \<open>toString\<close> of its own: that member is no function, \<open>valueOf\<close> gives no primitive
  either, and the conversion throws a \<open>TypeError\<close>.
\<close>

fun comma_join :: "string list \<Rightarrow> string" where
  "comma_join [] = []"
| "comma_join [s] = s"
| "comma_join (s # t # rest) = s @ '','' @ comma_join (t # rest)"

fun first_error :: "(js_error + string) list \<Rightarrow> js_error + string list" where
  "first_error [] = Inr []"
| "first_error (Inl e # rest) = Inl e"
| "first_error (Inr s # rest) =
     (case first_error rest of Inl e \<Rightarrow> Inl e | Inr ss \<Rightarrow> Inr (s # ss))"

definition no_primitive :: string where
  "no_primitive = ''Cannot convert object to primitive value''"

fun js_string :: "json \<Rightarrow> js_error + string" where
  "js_string JNull = Inr ''null''"
| "js_string (JBool b) = Inr (if b then ''true'' else ''false'')"
| "js_string (JNum n) = Inr n"
| "js_string (JStr s) = Inr s"
| "js_string (JArr xs) =
     (case first_error (map (\<lambda>x. if x = JNull then Inr [] else js_string x) xs) of
        Inl e \<Rightarrow> Inl e
      | Inr ss \<Rightarrow> Inr (comma_join ss))"
| "js_string (JObj members) =
     (case map_of (rev members) ''toString'' of
        None \<Rightarrow> Inr ''[object Object]''
      | Some v \<Rightarrow> Inl (TypeError no_primitive))"

subsection \<open>Responses\<close>

text \<open>
  \<open>await response.json()\<close> either rejects (the body is not JSON) or resolves to the
  parsed body. The body of a response that is not \<open>ok\<close> is any JSON value; the page
  reads its \<open>error\<close> property.
\<close>

datatype 'a json_result = Invalid_Json string | Json 'a

text \<open>
  The outcome of one \<open>fetch\<close>: the promise rejects (a network error), or it resolves
  to a response with \<open>response.ok\<close> true (a status in 200..299, by the fetch standard)
  or false (any other status).
\<close>

datatype 'a fetch_result =
    Rejected string
  | Ok_Response "'a json_result"
  | Failed_Response "json json_result"

text \<open>
  \<open>v || d\<close> on what \<open>localStorage.getItem\<close> returns, a string or \<open>null\<close>: the empty
  string is falsy, as \<open>null\<close> is.
\<close>

definition or_default :: "string option \<Rightarrow> string \<Rightarrow> string" where
  "or_default v d = (case v of None \<Rightarrow> d | Some s \<Rightarrow> if s = [] then d else s)"

subsection \<open>Data\<close>

text \<open>
  The body of a response that is ok has the shape the remote API gives it: a task
  object, an object with a \<open>tasks\<close> field, an object with \<open>token\<close> and \<open>user\<close>. The
  field \<open>id\<close> of a task is \<open>task_id\<close> here; a status is any string, so that a status
  the board does not know can be written.
\<close>

record task =
  task_id :: nat
  title :: string
  description :: "string option"
  priority :: string
  room_number :: "string option"
  estimated_duration :: "int option"
  status :: string
  assigned_user :: "string option"

text \<open>The form data of the create-task modal, as \<open>createTask\<close> receives it.\<close>

record task_data =
  new_title :: string
  new_description :: string
  new_priority :: string
  new_room_number :: string
  new_estimated_duration :: "int option"

text \<open>The body of \<open>GET /tasks\<close>: an object whose \<open>tasks\<close> field may be missing.\<close>

datatype tasks_body = Tasks_Body (data_tasks: "task list option")

text \<open>
  The body of a successful login or registration. The user profile is opaque to the
  page (it is stored, serialised and shown), hence a type parameter.
\<close>

record 'u auth_data =
  data_token :: string
  data_user :: 'u

record credentials =
  email :: string
  password :: string

record organization_data =
  organizationName :: string
  adminName :: string
  adminEmail :: string
  adminPassword :: string

text \<open>
  The message of a notification is whatever value \<open>addNotification\<close> was given: a string
  at every call but two, where it comes from the body of a failed response.
\<close>

record notification =
  nid :: nat
  message :: json
  ntype :: string

text \<open>
  The requests the page sends, by endpoint. A bearer token is the \<open>token\<close> state
  of the session store at the time of the call (\<open>None\<close> is \<open>null\<close>).
\<close>

datatype request =
    GET_users string
  | POST_login string string
  | POST_register organization_data
  | GET_tasks "string option"
  | POST_tasks "string option" task_data
  | PUT_tasks "string option" nat string

subsection \<open>The state of the page\<close>

text \<open>
  \<open>storage\<close> is \<open>localStorage\<close> and \<open>quota\<close> tells which contents it takes (a
  \<open>setItem\<close> that would lead to other contents throws); \<open>user\<close>, \<open>auth_loading\<close> and \<open>token\<close> are
  the state of \<open>AuthProvider\<close> (its \<open>loading\<close>); \<open>notifications\<close> is the state of
  \<open>NotificationProvider\<close>; \<open>timers\<close> are the pending \<open>setTimeout\<close> callbacks, each
  with the time it is due and the notification id its closure holds; \<open>now\<close> is the
  clock in milliseconds (\<open>Date.now()\<close>); \<open>tasks\<close>, \<open>loading\<close> and \<open>showCreateTask\<close>
  are the state of \<open>Dashboard\<close>; \<open>login_loading\<close> and \<open>register_loading\<close> are the
  \<open>loading\<close> states of the two forms; \<open>sent\<close> records every request issued and
  \<open>console\<close> every \<open>console.error\<close>.
\<close>

record 'u app =
  storage :: "string \<rightharpoonup> string"
  quota :: "(string \<rightharpoonup> string) \<Rightarrow> bool"
  user :: "'u option"
  auth_loading :: bool
  token :: "string option"
  notifications :: "notification list"
  timers :: "(nat \<times> nat) list"
  now :: nat
  tasks :: "task list"
  loading :: bool
  showCreateTask :: bool
  login_loading :: bool
  register_loading :: bool
  sent :: "request list"
  console :: "string list"

text \<open>
  The initial values of every \<open>useState\<close>, over what is persisted, what the storage
  takes and the clock.
\<close>

definition initial ::
  "(string \<rightharpoonup> string) \<Rightarrow> ((string \<rightharpoonup> string) \<Rightarrow> bool) \<Rightarrow> nat \<Rightarrow> 'u app" where
  "initial persisted capacity t0 =
     \<lparr>storage = persisted, quota = capacity, user = None, auth_loading = True, token = None,
      notifications = [], timers = [], now = t0,
      tasks = [], loading = True, showCreateTask = False,
      login_loading = False, register_loading = False,
      sent = [], console = []\<rparr>"

section \<open>The notification queue\<close>

text \<open>
  \<open>addNotification\<close> takes its id from the clock, appends the entry and schedules the
  removal of every entry with that id 5000 ms later. Every call in the page passes the
  type, so the default \<open>info\<close> of the parameter plays no part.
\<close>

definition addNotification :: "json \<Rightarrow> string \<Rightarrow> 'u app \<Rightarrow> 'u app" where
  "addNotification msg type st =
     (let ident = now st;
          notification = \<lparr>nid = ident, message = msg, ntype = type\<rparr>
      in st\<lparr>notifications := notifications st @ [notification],
            timers := timers st @ [(now st + 5000, ident)]\<rparr>)"

definition removeNotification :: "nat \<Rightarrow> 'u app \<Rightarrow> 'u app" where
  "removeNotification ident st =
     st\<lparr>notifications := filter (\<lambda>n. nid n \<noteq> ident) (notifications st)\<rparr>"

text \<open>
  The callback given to \<open>setTimeout\<close> in \<open>addNotification\<close>: the same filter, on the id
  of its closure.
\<close>

definition expire :: "nat \<Rightarrow> 'u app \<Rightarrow> 'u app" where
  "expire ident st =
     st\<lparr>notifications := filter (\<lambda>n. nid n \<noteq> ident) (notifications st)\<rparr>"

text \<open>
  Time passes: the clock moves on by \<open>d\<close> milliseconds and every pending timer whose
  time has come runs, in the order of scheduling (all delays are equal, so this is the
  order in which they fall due).
\<close>

definition elapse :: "nat \<Rightarrow> 'u app \<Rightarrow> 'u app" where
  "elapse d st =
     (let t = now st + d;
          due = filter (\<lambda>(at, ident). at \<le> t) (timers st);
          pending = filter (\<lambda>(at, ident). \<not> at \<le> t) (timers st)
      in (fold (\<lambda>(at, ident). expire ident) due st)\<lparr>timers := pending, now := t\<rparr>)"

section \<open>The session store\<close>

text \<open>
  The effect of \<open>AuthProvider\<close> at mount. \<open>parse\<close> is \<open>JSON.parse\<close> on the persisted
  profile (\<open>None\<close> when it throws); an exception in the \<open>then\<close> callback is handled
  by the \<open>catch\<close> callback, as a rejected \<open>fetch\<close> is.
\<close>

definition clear_session :: "'u app \<Rightarrow> 'u app" where
  "clear_session st =
     st\<lparr>storage := (storage st)(''shiftflow_token'' := None, ''shiftflow_user'' := None),
        token := None\<rparr>"

definition startup_probe :: "(string \<Rightarrow> 'u option) \<Rightarrow> 'b fetch_result \<Rightarrow> 'u app \<Rightarrow> 'u app" where
  "startup_probe parse res st =
     (case storage st ''shiftflow_token'' of
        None \<Rightarrow> st\<lparr>auth_loading := False\<rparr>
      | Some savedToken \<Rightarrow>
          if savedToken = [] then st\<lparr>auth_loading := False\<rparr>
          else
            let st1 = st\<lparr>token := Some savedToken, sent := sent st @ [GET_users savedToken]\<rparr>
            in (case res of
                  Ok_Response _ \<Rightarrow>
                    (case parse (or_default (storage st1 ''shiftflow_user'') ''{}'') of
                       Some userData \<Rightarrow> st1\<lparr>user := Some userData, auth_loading := False\<rparr>
                     | None \<Rightarrow> (clear_session st1)\<lparr>auth_loading := False\<rparr>)
                | Failed_Response _ \<Rightarrow> (clear_session st1)\<lparr>auth_loading := False\<rparr>
                | Rejected _ \<Rightarrow> (clear_session st1)\<lparr>auth_loading := False\<rparr>))"

text \<open>
  \<open>localStorage.setItem(k, v)\<close>: the entry is written when the storage takes the new
  contents, and a \<open>QuotaExceededError\<close> is thrown, with nothing written, when not.
\<close>

definition setItem :: "string \<Rightarrow> string \<Rightarrow> 'u app \<Rightarrow> js_error + 'u app" where
  "setItem k v st =
     (if quota st ((storage st)(k \<mapsto> v))
      then Inr (st\<lparr>storage := (storage st)(k \<mapsto> v)\<rparr>)
      else Inl (QuotaExceededError (quota_exceeded k)))"

text \<open>
  The lines that \<open>login\<close> and \<open>register\<close> share after a response that is ok and
  parses: two \<open>setItem\<close> calls, one after the other, then \<open>setToken\<close>, \<open>setUser\<close> and
  \<open>return data\<close>. What a \<open>setItem\<close> throws leaves the function through its \<open>catch\<close>,
  which throws it again; the state is what was written until then. \<open>stringify\<close> is
  \<open>JSON.stringify\<close> on the profile.
\<close>

definition persist_session ::
  "('u \<Rightarrow> string) \<Rightarrow> 'u auth_data \<Rightarrow> 'u app \<Rightarrow> (js_error + 'u auth_data) \<times> 'u app" where
  "persist_session stringify data st =
     (case setItem ''shiftflow_token'' (data_token data) st of
        Inl e \<Rightarrow> (Inl e, st)
      | Inr st1 \<Rightarrow>
          (case setItem ''shiftflow_user'' (stringify (data_user data)) st1 of
             Inl e \<Rightarrow> (Inl e, st1)
           | Inr st2 \<Rightarrow>
               (Inr data,
                st2\<lparr>token := Some (data_token data), user := Some (data_user data)\<rparr>)))"

text \<open>
  \<open>throw new Error(error.error || d)\<close> on the parsed body of a response that is not ok:
  the \<open>TypeError\<close> of the property read when the body is \<open>null\<close>, the \<open>TypeError\<close>
  of the conversion when the value has no string, the new error otherwise.
\<close>

definition failure :: "json \<Rightarrow> string \<Rightarrow> js_error" where
  "failure err d =
     (case property err ''error'' of
        Inl e \<Rightarrow> e
      | Inr v \<Rightarrow>
          (case js_string (js_or v (JStr d)) of
             Inl e \<Rightarrow> e
           | Inr m \<Rightarrow> Error m))"

definition login ::
  "('u \<Rightarrow> string) \<Rightarrow> string \<Rightarrow> string \<Rightarrow> 'u auth_data fetch_result \<Rightarrow> 'u app
     \<Rightarrow> (js_error + 'u auth_data) \<times> 'u app" where
  "login stringify em pw res st =
     (let st1 = st\<lparr>sent := sent st @ [POST_login em pw]\<rparr>
      in case res of
           Rejected m \<Rightarrow> (Inl (TypeError m), st1)
         | Failed_Response (Invalid_Json m) \<Rightarrow> (Inl (SyntaxError m), st1)
         | Failed_Response (Json err) \<Rightarrow> (Inl (failure err ''Login failed''), st1)
         | Ok_Response (Invalid_Json m) \<Rightarrow> (Inl (SyntaxError m), st1)
         | Ok_Response (Json data) \<Rightarrow> persist_session stringify data st1)"

definition register ::
  "('u \<Rightarrow> string) \<Rightarrow> organization_data \<Rightarrow> 'u auth_data fetch_result \<Rightarrow> 'u app
     \<Rightarrow> (js_error + 'u auth_data) \<times> 'u app" where
  "register stringify organizationData res st =
     (let st1 = st\<lparr>sent := sent st @ [POST_register organizationData]\<rparr>
      in case res of
           Rejected m \<Rightarrow> (Inl (TypeError m), st1)
         | Failed_Response (Invalid_Json m) \<Rightarrow> (Inl (SyntaxError m), st1)
         | Failed_Response (Json err) \<Rightarrow> (Inl (failure err ''Registration failed''), st1)
         | Ok_Response (Invalid_Json m) \<Rightarrow> (Inl (SyntaxError m), st1)
         | Ok_Response (Json data) \<Rightarrow> persist_session stringify data st1)"

definition logout :: "'u app \<Rightarrow> 'u app" where
  "logout st =
     st\<lparr>storage := (storage st)(''shiftflow_token'' := None, ''shiftflow_user'' := None),
        token := None,
        user := None\<rparr>"

section \<open>The forms\<close>

definition login_handleSubmit ::
  "('u \<Rightarrow> string) \<Rightarrow> credentials \<Rightarrow> 'u auth_data fetch_result \<Rightarrow> 'u app \<Rightarrow> 'u app" where
  "login_handleSubmit stringify creds res st =
     (if email creds = [] \<or> password creds = []
      then addNotification (JStr ''Please enter both email and password'') ''error'' st
      else
        case login stringify (email creds) (password creds) res (st\<lparr>login_loading := True\<rparr>) of
          (Inr data, st2) \<Rightarrow>
            (addNotification (JStr ''Login successful!'') ''success'' st2)\<lparr>login_loading := False\<rparr>
        | (Inl e, st2) \<Rightarrow>
            (addNotification (JStr (error_message e)) ''error'' st2)\<lparr>login_loading := False\<rparr>)"

definition register_handleSubmit ::
  "('u \<Rightarrow> string) \<Rightarrow> organization_data \<Rightarrow> 'u auth_data fetch_result \<Rightarrow> 'u app \<Rightarrow> 'u app" where
  "register_handleSubmit stringify formData res st =
     (if organizationName formData = [] \<or> adminName formData = []
          \<or> adminEmail formData = [] \<or> adminPassword formData = []
      then addNotification (JStr ''Please fill in all fields'') ''error'' st
      else if length (adminPassword formData) < 8
      then addNotification (JStr ''Password must be at least 8 characters'') ''error'' st
      else
        case register stringify formData res (st\<lparr>register_loading := True\<rparr>) of
          (Inr data, st2) \<Rightarrow>
            (addNotification (JStr ''Registration successful! Welcome to ShiftFlow!'') ''success'' st2)
              \<lparr>register_loading := False\<rparr>
        | (Inl e, st2) \<Rightarrow>
            (addNotification (JStr (error_message e)) ''error'' st2)\<lparr>register_loading := False\<rparr>)"

section \<open>The task board\<close>

definition loadTasks :: "tasks_body fetch_result \<Rightarrow> 'u app \<Rightarrow> 'u app" where
  "loadTasks res st =
     (let st1 = st\<lparr>sent := sent st @ [GET_tasks (token st)]\<rparr>
      in case res of
           Rejected m \<Rightarrow>
             st1\<lparr>console := console st1 @ [''Error loading tasks:'', m], loading := False\<rparr>
         | Ok_Response (Invalid_Json m) \<Rightarrow>
             st1\<lparr>console := console st1 @ [''Error loading tasks:'', m], loading := False\<rparr>
         | Ok_Response (Json data) \<Rightarrow>
             st1\<lparr>tasks := (case data_tasks data of None \<Rightarrow> [] | Some ts \<Rightarrow> ts),
                 loading := False\<rparr>
         | Failed_Response _ \<Rightarrow> st1\<lparr>loading := False\<rparr>)"

text \<open>
  In \<open>createTask\<close> and \<open>updateTaskStatus\<close> the one \<open>catch\<close> takes a rejected
  \<open>fetch\<close>, a rejected \<open>response.json()\<close> and the \<open>TypeError\<close> of \<open>error.error\<close> on a
  body that is \<open>null\<close> alike.
\<close>

definition createTask :: "task_data \<Rightarrow> task fetch_result \<Rightarrow> 'u app \<Rightarrow> 'u app" where
  "createTask taskData res st =
     (let st1 = st\<lparr>sent := sent st @ [POST_tasks (token st) taskData]\<rparr>
      in case res of
           Rejected m \<Rightarrow> addNotification (JStr ''Failed to create task'') ''error'' st1
         | Ok_Response (Invalid_Json m) \<Rightarrow>
             addNotification (JStr ''Failed to create task'') ''error'' st1
         | Ok_Response (Json newTask) \<Rightarrow>
             (addNotification (JStr ''Task created successfully!'') ''success''
                (st1\<lparr>tasks := newTask # tasks st1\<rparr>))\<lparr>showCreateTask := False\<rparr>
         | Failed_Response (Invalid_Json m) \<Rightarrow>
             addNotification (JStr ''Failed to create task'') ''error'' st1
         | Failed_Response (Json err) \<Rightarrow>
             (case property err ''error'' of
                Inl e \<Rightarrow> addNotification (JStr ''Failed to create task'') ''error'' st1
              | Inr v \<Rightarrow>
                  addNotification (js_or v (JStr ''Failed to create task'')) ''error'' st1))"

definition updateTaskStatus :: "nat \<Rightarrow> string \<Rightarrow> task fetch_result \<Rightarrow> 'u app \<Rightarrow> 'u app" where
  "updateTaskStatus taskId new_status res st =
     (let st1 = st\<lparr>sent := sent st @ [PUT_tasks (token st) taskId new_status]\<rparr>
      in case res of
           Rejected m \<Rightarrow> addNotification (JStr ''Failed to update task'') ''error'' st1
         | Ok_Response (Invalid_Json m) \<Rightarrow>
             addNotification (JStr ''Failed to update task'') ''error'' st1
         | Ok_Response (Json updatedTask) \<Rightarrow>
             addNotification (JStr ''Task updated successfully!'') ''success''
               (st1\<lparr>tasks := map (\<lambda>t. if task_id t = taskId then updatedTask else t) (tasks st1)\<rparr>)
         | Failed_Response (Invalid_Json m) \<Rightarrow>
             addNotification (JStr ''Failed to update task'') ''error'' st1
         | Failed_Response (Json err) \<Rightarrow>
             (case property err ''error'' of
                Inl e \<Rightarrow> addNotification (JStr ''Failed to update task'') ''error'' st1
              | Inr v \<Rightarrow>
                  addNotification (js_or v (JStr ''Failed to update task'')) ''error'' st1))"

record buckets =
  todo :: "task list"
  in_progress :: "task list"
  completed :: "task list"
  handoff :: "task list"

definition tasksByStatus :: "task list \<Rightarrow> buckets" where
  "tasksByStatus ts =
     \<lparr>todo = filter (\<lambda>t. status t = ''todo'') ts,
      in_progress = filter (\<lambda>t. status t = ''in_progress'') ts,
      completed = filter (\<lambda>t. status t = ''completed'') ts,
      handoff = filter (\<lambda>t. status t = ''handoff'') ts\<rparr>"

record action =
  label :: string
  action_status :: string
  color :: string

definition getStatusActions :: "string \<Rightarrow> action list" where
  "getStatusActions currentStatus =
     (let actions = [];
          actions =
            (if currentStatus = ''todo''
             then actions @ [\<lparr>label = ''Start'', action_status = ''in_progress'', color = ''bg-blue-600''\<rparr>]
             else actions);
          actions =
            (if currentStatus = ''in_progress''
             then actions
                    @ [\<lparr>label = ''Complete'', action_status = ''completed'', color = ''bg-green-600''\<rparr>]
                    @ [\<lparr>label = ''Handoff'', action_status = ''handoff'', color = ''bg-purple-600''\<rparr>]
             else actions);
          actions =
            (if currentStatus = ''handoff''
             then actions @ [\<lparr>label = ''Complete'', action_status = ''completed'', color = ''bg-green-600''\<rparr>]
             else actions)
      in actions)"

section \<open>Notions used in the statements\<close>

subsection \<open>Task board\<close>

text \<open>The four status values the board knows, and the buckets of a view that hold a task.\<close>

definition recognized :: "string list" where
  "recognized = [''todo'', ''in_progress'', ''completed'', ''handoff'']"

definition holding :: "buckets \<Rightarrow> task \<Rightarrow> task list list" where
  "holding b t =
     filter (\<lambda>bucket. t \<in> set bucket) [todo b, in_progress b, completed b, handoff b]"

text \<open>
  A failed operation of the board, from \<open>st\<close> to \<open>st'\<close>: the collection is the same and
  one error notification with the message \<open>msg\<close> is last in the queue.
\<close>

definition reports_failure :: "'u app \<Rightarrow> json \<Rightarrow> 'u app \<Rightarrow> bool" where
  "reports_failure st msg st' \<longleftrightarrow>
     tasks st' = tasks st
     \<and> notifications st' = notifications st @ [\<lparr>nid = now st, message = msg, ntype = ''error''\<rparr>]"

text \<open>
  A failure that tells the user nothing: nothing but the request log, the console and the
  loading flag differs, and the flag is cleared.
\<close>

definition silent_failure :: "'u app \<Rightarrow> 'u app \<Rightarrow> bool" where
  "silent_failure st st' \<longleftrightarrow>
     tasks st' = tasks st \<and> notifications st' = notifications st \<and> timers st' = timers st
     \<and> loading st' = False
     \<and> st' = st\<lparr>sent := sent st', console := console st', loading := False\<rparr>"

text \<open>
  The message of a failure as the specification words it: the \<open>error\<close> field of the body
  when the body has one, a default otherwise.
\<close>

definition spec_failure_message :: "json json_result \<Rightarrow> string \<Rightarrow> json" where
  "spec_failure_message body d =
     (case body of
        Json (JObj members) \<Rightarrow>
          (case map_of (rev members) ''error'' of Some v \<Rightarrow> v | None \<Rightarrow> JStr d)
      | _ \<Rightarrow> JStr d)"

text \<open>
  What \<open>NotificationPanel\<close> can show as the text of an entry: React renders strings and
  numbers, nothing for \<open>null\<close> and booleans, the elements of an array, and throws on an
  object, which takes the page down.
\<close>

fun renders :: "json \<Rightarrow> bool" where
  "renders (JObj members) = False"
| "renders (JArr xs) = list_all renders xs"
| "renders JNull = True"
| "renders (JBool b) = True"
| "renders (JNum n) = True"
| "renders (JStr s) = True"

subsection \<open>Session store\<close>

definition both_persisted :: "'u app \<Rightarrow> bool" where
  "both_persisted st \<longleftrightarrow>
     storage st ''shiftflow_token'' \<noteq> None \<and> storage st ''shiftflow_user'' \<noteq> None"

definition both_cleared :: "'u app \<Rightarrow> bool" where
  "both_cleared st \<longleftrightarrow>
     storage st ''shiftflow_token'' = None \<and> storage st ''shiftflow_user'' = None"

text \<open>The two entries are both there or both missing.\<close>

definition entries_together :: "'u app \<Rightarrow> bool" where
  "entries_together st \<longleftrightarrow>
     (storage st ''shiftflow_token'' = None) = (storage st ''shiftflow_user'' = None)"

subsection \<open>Runs of the notification queue\<close>

text \<open>
  What happens to the queue: a message is enqueued, the user dismisses an entry, or time
  passes. A run applies the events in order.
\<close>

datatype queue_event = Enqueue json string | Dismiss nat | Elapse nat

fun step :: "queue_event \<Rightarrow> 'u app \<Rightarrow> 'u app" where
  "step (Enqueue msg type) st = addNotification msg type st"
| "step (Dismiss ident) st = removeNotification ident st"
| "step (Elapse d) st = elapse d st"

definition run :: "queue_event list \<Rightarrow> 'u app \<Rightarrow> 'u app" where
  "run evs st = fold step evs st"

fun is_enqueue :: "queue_event \<Rightarrow> bool" where
  "is_enqueue (Enqueue msg type) = True"
| "is_enqueue (Dismiss ident) = False"
| "is_enqueue (Elapse d) = False"

definition no_enqueue :: "queue_event list \<Rightarrow> bool" where
  "no_enqueue evs = list_all (\<lambda>e. \<not> is_enqueue e) evs"

text \<open>The queue as \<open>NotificationProvider\<close> mounts: no entry, no timer.\<close>

definition mounted :: "'u app \<Rightarrow> bool" where
  "mounted st \<longleftrightarrow> notifications st = [] \<and> timers st = []"

text \<open>
  The invariant of the queue: a pending timer is due 5000 ms after the id it holds and is
  not yet due; an entry is no younger than the clock and its timer is pending.
\<close>

definition queue_ok :: "'u app \<Rightarrow> bool" where
  "queue_ok st \<longleftrightarrow>
     (\<forall>(at, ident) \<in> set (timers st). at = ident + 5000 \<and> now st < at)
     \<and> (\<forall>n \<in> set (notifications st).
           nid n \<le> now st \<and> (nid n + 5000, nid n) \<in> set (timers st))"

subsection \<open>Sample data\<close>

definition sample_task :: "nat \<Rightarrow> string \<Rightarrow> string \<Rightarrow> task" where
  "sample_task i ttl s =
     \<lparr>task_id = i, title = ttl, description = None, priority = ''normal'',
      room_number = None, estimated_duration = None, status = s, assigned_user = None\<rparr>"

definition sample_data :: "string \<Rightarrow> task_data" where
  "sample_data ttl =
     \<lparr>new_title = ttl, new_description = [], new_priority = ''normal'',
      new_room_number = [], new_estimated_duration = None\<rparr>"

definition sample_form :: "string \<Rightarrow> organization_data" where
  "sample_form pw =
     \<lparr>organizationName = ''Metro General Hospital'', adminName = ''Ada'',
      adminEmail = ''ada@metro.org'', adminPassword = pw\<rparr>"

text \<open>
  Two storages: one that takes everything, and one in which the values of the two
  session entries may have \<open>limit\<close> characters together.
\<close>

definition unlimited :: "(string \<rightharpoonup> string) \<Rightarrow> bool" where
  "unlimited m = True"

definition session_within :: "nat \<Rightarrow> (string \<rightharpoonup> string) \<Rightarrow> bool" where
  "session_within limit m \<longleftrightarrow>
     (case m ''shiftflow_token'' of None \<Rightarrow> 0 | Some v \<Rightarrow> length v)
       + (case m ''shiftflow_user'' of None \<Rightarrow> 0 | Some v \<Rightarrow> length v) \<le> limit"

text \<open>
  A dashboard that has loaded the tasks \<open>ts\<close>, at time 1000, with nothing persisted and
  a storage that takes everything.
\<close>

definition board :: "task list \<Rightarrow> unit app" where
  "board ts = (initial Map.empty unlimited 1000)\<lparr>tasks := ts, loading := False\<rparr>"

section \<open>Basic facts\<close>

lemma or_default_simps:
  "or_default None d = d"
  "or_default (Some []) d = d"
  "s \<noteq> [] \<Longrightarrow> or_default (Some s) d = s"
  by (simp_all add: or_default_def)

lemma addNotification_fields:
  "notifications (addNotification msg type st) =
     notifications st @ [\<lparr>nid = now st, message = msg, ntype = type\<rparr>]"
  "timers (addNotification msg type st) = timers st @ [(now st + 5000, now st)]"
  "tasks (addNotification msg type st) = tasks st"
  "sent (addNotification msg type st) = sent st"
  "now (addNotification msg type st) = now st"
  "storage (addNotification msg type st) = storage st"
  "showCreateTask (addNotification msg type st) = showCreateTask st"
  by (simp_all add: addNotification_def Let_def)

lemma removeNotification_fields:
  "notifications (removeNotification i st) = filter (\<lambda>n. nid n \<noteq> i) (notifications st)"
  "timers (removeNotification i st) = timers st"
  "now (removeNotification i st) = now st"
  by (simp_all add: removeNotification_def)

lemma js_or_simps:
  "js_or None d = d"
  "\<not> truthy (Some x) \<Longrightarrow> js_or (Some x) d = d"
  "truthy (Some x) \<Longrightarrow> js_or (Some x) d = x"
  by (simp_all add: js_or_def)

lemma property_not_null: "body \<noteq> JNull \<Longrightarrow> \<exists>v. property body p = Inr v"
  by (cases body) simp_all

lemma sample_task_sel [simp]:
  "task_id (sample_task i ttl s) = i" "status (sample_task i ttl s) = s"
  by (simp_all add: sample_task_def)

lemma board_sel [simp]:
  "tasks (board ts) = ts" "notifications (board ts) = []" "now (board ts) = 1000"
  "sent (board ts) = []" "storage (board ts) = Map.empty" "quota (board ts) = unlimited"
  by (simp_all add: board_def initial_def)

section \<open>The derived view\<close>

text \<open>
  Claim C2. For every task collection the derived view has four buckets keyed by status.
  A task is in a bucket exactly when it is in the collection and its status is the key
  of the bucket; a task whose status is none of \<open>todo\<close>, \<open>in_progress\<close>, \<open>completed\<close>,
  \<open>handoff\<close> is in no bucket; a task of the collection with one of these four statuses
  is in exactly one bucket.
\<close>

theorem tasksByStatus_partition:
  "(t \<in> set (todo (tasksByStatus ts)) \<longleftrightarrow> t \<in> set ts \<and> status t = ''todo'')
   \<and> (t \<in> set (in_progress (tasksByStatus ts)) \<longleftrightarrow> t \<in> set ts \<and> status t = ''in_progress'')
   \<and> (t \<in> set (completed (tasksByStatus ts)) \<longleftrightarrow> t \<in> set ts \<and> status t = ''completed'')
   \<and> (t \<in> set (handoff (tasksByStatus ts)) \<longleftrightarrow> t \<in> set ts \<and> status t = ''handoff'')
   \<and> (status t \<notin> set recognized \<longrightarrow> holding (tasksByStatus ts) t = [])
   \<and> (t \<in> set ts \<and> status t \<in> set recognized \<longrightarrow> length (holding (tasksByStatus ts) t) = 1)"
proof -
  have keyed:
    "t \<in> set (todo (tasksByStatus ts)) \<longleftrightarrow> t \<in> set ts \<and> status t = ''todo''"
    "t \<in> set (in_progress (tasksByStatus ts)) \<longleftrightarrow> t \<in> set ts \<and> status t = ''in_progress''"
    "t \<in> set (completed (tasksByStatus ts)) \<longleftrightarrow> t \<in> set ts \<and> status t = ''completed''"
    "t \<in> set (handoff (tasksByStatus ts)) \<longleftrightarrow> t \<in> set ts \<and> status t = ''handoff''"
    by (auto simp add: tasksByStatus_def)
  have dropped: "holding (tasksByStatus ts) t = []" if "status t \<notin> set recognized"
    using that by (simp add: holding_def keyed recognized_def)
  have once: "length (holding (tasksByStatus ts) t) = 1"
    if "t \<in> set ts" and "status t \<in> set recognized"
    using that by (auto simp add: holding_def keyed recognized_def)
  from keyed dropped once show ?thesis by blast
qed

theorem tasksByStatus_partition_witness:
  "holding (tasksByStatus [sample_task 1 ''Round'' ''todo'', sample_task 2 ''Audit'' ''archived''])
       (sample_task 2 ''Audit'' ''archived'') = []
   \<and> length (holding (tasksByStatus [sample_task 1 ''Round'' ''todo'', sample_task 2 ''Audit'' ''archived''])
       (sample_task 1 ''Round'' ''todo'')) = 1
   \<and> sample_task 1 ''Round'' ''todo''
       \<in> set (todo (tasksByStatus [sample_task 1 ''Round'' ''todo'', sample_task 2 ''Audit'' ''archived'']))"
proof -
  let ?ts = "[sample_task 1 ''Round'' ''todo'', sample_task 2 ''Audit'' ''archived'']"
  note unknown = tasksByStatus_partition [of "sample_task 2 ''Audit'' ''archived''" ?ts]
  note known = tasksByStatus_partition [of "sample_task 1 ''Round'' ''todo''" ?ts]
  have u: "status (sample_task 2 ''Audit'' ''archived'') \<notin> set recognized"
    by (simp add: recognized_def)
  have k: "sample_task 1 ''Round'' ''todo'' \<in> set ?ts
      \<and> status (sample_task 1 ''Round'' ''todo'') \<in> set recognized"
    by (simp add: recognized_def)
  have k': "sample_task 1 ''Round'' ''todo'' \<in> set ?ts
      \<and> status (sample_task 1 ''Round'' ''todo'') = ''todo''"
    by simp
  from unknown u have "holding (tasksByStatus ?ts) (sample_task 2 ''Audit'' ''archived'') = []"
    by blast
  moreover from known k have "length (holding (tasksByStatus ?ts) (sample_task 1 ''Round'' ''todo'')) = 1"
    by blast
  moreover from known k' have "sample_task 1 ''Round'' ''todo'' \<in> set (todo (tasksByStatus ?ts))"
    by blast
  ultimately show ?thesis by blast
qed

section \<open>The status transitions offered\<close>

text \<open>
  Claim C3. The status transitions the card of a task offers are exactly: from \<open>todo\<close>
  to \<open>in_progress\<close>; from \<open>in_progress\<close> to \<open>completed\<close> and to \<open>handoff\<close>; from
  \<open>handoff\<close> to \<open>completed\<close>; from \<open>completed\<close> and from every other status, none.
\<close>

theorem getStatusActions_transitions:
  "map action_status (getStatusActions currentStatus) =
     (if currentStatus = ''todo'' then [''in_progress'']
      else if currentStatus = ''in_progress'' then [''completed'', ''handoff'']
      else if currentStatus = ''handoff'' then [''completed'']
      else [])
   \<and> (target \<in> set (map action_status (getStatusActions currentStatus)) \<longleftrightarrow>
        (currentStatus, target) \<in>
          {(''todo'', ''in_progress''), (''in_progress'', ''completed''),
           (''in_progress'', ''handoff''), (''handoff'', ''completed'')})"
proof -
  have targets: "map action_status (getStatusActions currentStatus) =
     (if currentStatus = ''todo'' then [''in_progress'']
      else if currentStatus = ''in_progress'' then [''completed'', ''handoff'']
      else if currentStatus = ''handoff'' then [''completed'']
      else [])"
    by (simp add: getStatusActions_def)
  then have "target \<in> set (map action_status (getStatusActions currentStatus)) \<longleftrightarrow>
        (currentStatus, target) \<in>
          {(''todo'', ''in_progress''), (''in_progress'', ''completed''),
           (''in_progress'', ''handoff''), (''handoff'', ''completed'')}"
    by auto
  with targets show ?thesis by blast
qed

section \<open>Creating and updating tasks\<close>

lemma createTask_failure:
  "createTask taskData (Rejected m) st =
     addNotification (JStr ''Failed to create task'') ''error''
       (st\<lparr>sent := sent st @ [POST_tasks (token st) taskData]\<rparr>)"
  "createTask taskData (Failed_Response (Invalid_Json m)) st =
     addNotification (JStr ''Failed to create task'') ''error''
       (st\<lparr>sent := sent st @ [POST_tasks (token st) taskData]\<rparr>)"
  "createTask taskData (Failed_Response (Json JNull)) st =
     addNotification (JStr ''Failed to create task'') ''error''
       (st\<lparr>sent := sent st @ [POST_tasks (token st) taskData]\<rparr>)"
  "property body ''error'' = Inr v \<Longrightarrow>
   createTask taskData (Failed_Response (Json body)) st =
     addNotification (js_or v (JStr ''Failed to create task'')) ''error''
       (st\<lparr>sent := sent st @ [POST_tasks (token st) taskData]\<rparr>)"
  by (simp_all add: createTask_def Let_def)

lemma updateTaskStatus_failure:
  "updateTaskStatus taskId s (Rejected m) st =
     addNotification (JStr ''Failed to update task'') ''error''
       (st\<lparr>sent := sent st @ [PUT_tasks (token st) taskId s]\<rparr>)"
  "updateTaskStatus taskId s (Failed_Response (Invalid_Json m)) st =
     addNotification (JStr ''Failed to update task'') ''error''
       (st\<lparr>sent := sent st @ [PUT_tasks (token st) taskId s]\<rparr>)"
  "updateTaskStatus taskId s (Failed_Response (Json JNull)) st =
     addNotification (JStr ''Failed to update task'') ''error''
       (st\<lparr>sent := sent st @ [PUT_tasks (token st) taskId s]\<rparr>)"
  "property body ''error'' = Inr v \<Longrightarrow>
   updateTaskStatus taskId s (Failed_Response (Json body)) st =
     addNotification (js_or v (JStr ''Failed to update task'')) ''error''
       (st\<lparr>sent := sent st @ [PUT_tasks (token st) taskId s]\<rparr>)"
  by (simp_all add: updateTaskStatus_def Let_def)

lemma reports_failure_addNotification:
  "tasks st1 = tasks st \<Longrightarrow> notifications st1 = notifications st \<Longrightarrow> now st1 = now st \<Longrightarrow>
   reports_failure st msg (addNotification msg ''error'' st1)"
  by (simp add: reports_failure_def addNotification_fields)

text \<open>
  Claim C4, as the specification states it, fails: when the body of a response that is
  not ok has an \<open>error\<close> field that is the empty string, the notification carries the
  default and not the field.
\<close>

theorem task_failure_message_counterexample:
  "message (last (notifications (createTask (sample_data ''Check vitals'')
       (Failed_Response (Json (JObj [(''error'', JStr [])]))) (board []))))
     \<noteq> spec_failure_message (Json (JObj [(''error'', JStr [])])) ''Failed to create task''"
  by (simp add: createTask_def Let_def js_or_def addNotification_fields spec_failure_message_def)

text \<open>
  Claim C4, amended. For every response that is not ok and every network error during
  \<open>createTask\<close> or \<open>updateTaskStatus\<close>, the local collection is unchanged and one error
  notification is enqueued. Its message is the \<open>error\<close> property of the parsed body when
  that value is truthy, enqueued as the value it is; it is the fixed default of the
  operation otherwise: after a network error, for a body that is not JSON, for the body
  \<open>null\<close>, and when the property is missing or falsy (the empty string, zero, \<open>false\<close>,
  \<open>null\<close>). Every body other than \<open>null\<close> has the property or lacks it, so the cases
  are all there are.
\<close>

theorem task_failure_reported:
  "reports_failure st (JStr ''Failed to create task'') (createTask taskData (Rejected m) st)
   \<and> reports_failure st (JStr ''Failed to create task'')
        (createTask taskData (Failed_Response (Invalid_Json m)) st)
   \<and> reports_failure st (JStr ''Failed to create task'')
        (createTask taskData (Failed_Response (Json JNull)) st)
   \<and> (property body ''error'' = Inr v \<and> \<not> truthy v \<longrightarrow>
        reports_failure st (JStr ''Failed to create task'')
          (createTask taskData (Failed_Response (Json body)) st))
   \<and> (property body ''error'' = Inr (Some x) \<and> truthy (Some x) \<longrightarrow>
        reports_failure st x (createTask taskData (Failed_Response (Json body)) st))
   \<and> reports_failure st (JStr ''Failed to update task'') (updateTaskStatus taskId s (Rejected m) st)
   \<and> reports_failure st (JStr ''Failed to update task'')
        (updateTaskStatus taskId s (Failed_Response (Invalid_Json m)) st)
   \<and> reports_failure st (JStr ''Failed to update task'')
        (updateTaskStatus taskId s (Failed_Response (Json JNull)) st)
   \<and> (property body ''error'' = Inr v \<and> \<not> truthy v \<longrightarrow>
        reports_failure st (JStr ''Failed to update task'')
          (updateTaskStatus taskId s (Failed_Response (Json body)) st))
   \<and> (property body ''error'' = Inr (Some x) \<and> truthy (Some x) \<longrightarrow>
        reports_failure st x (updateTaskStatus taskId s (Failed_Response (Json body)) st))"
proof -
  have falsy: "js_or v d = d" if "\<not> truthy v" for d
    using that by (cases v) (simp_all add: js_or_simps)
  have create_default:
    "reports_failure st (JStr ''Failed to create task'') (createTask taskData (Rejected m) st)"
    "reports_failure st (JStr ''Failed to create task'')
       (createTask taskData (Failed_Response (Invalid_Json m)) st)"
    "reports_failure st (JStr ''Failed to create task'')
       (createTask taskData (Failed_Response (Json JNull)) st)"
    by (simp_all add: createTask_failure reports_failure_addNotification)
  have create_falsy: "reports_failure st (JStr ''Failed to create task'')
       (createTask taskData (Failed_Response (Json body)) st)"
    if "property body ''error'' = Inr v" and "\<not> truthy v"
    using that by (simp add: createTask_failure falsy reports_failure_addNotification)
  have create_served: "reports_failure st x (createTask taskData (Failed_Response (Json body)) st)"
    if "property body ''error'' = Inr (Some x)" and "truthy (Some x)"
    using that by (simp add: createTask_failure js_or_simps reports_failure_addNotification)
  have update_default:
    "reports_failure st (JStr ''Failed to update task'') (updateTaskStatus taskId s (Rejected m) st)"
    "reports_failure st (JStr ''Failed to update task'')
       (updateTaskStatus taskId s (Failed_Response (Invalid_Json m)) st)"
    "reports_failure st (JStr ''Failed to update task'')
       (updateTaskStatus taskId s (Failed_Response (Json JNull)) st)"
    by (simp_all add: updateTaskStatus_failure reports_failure_addNotification)
  have update_falsy: "reports_failure st (JStr ''Failed to update task'')
       (updateTaskStatus taskId s (Failed_Response (Json body)) st)"
    if "property body ''error'' = Inr v" and "\<not> truthy v"
    using that by (simp add: updateTaskStatus_failure falsy reports_failure_addNotification)
  have update_served:
    "reports_failure st x (updateTaskStatus taskId s (Failed_Response (Json body)) st)"
    if "property body ''error'' = Inr (Some x)" and "truthy (Some x)"
    using that by (simp add: updateTaskStatus_failure js_or_simps reports_failure_addNotification)
  from create_default create_falsy create_served update_default update_falsy update_served
  show ?thesis by blast
qed

theorem task_failure_reported_witness:
  "reports_failure (board [sample_task 3 ''Round'' ''todo'']) (JStr ''Title is required'')
     (createTask (sample_data [])
        (Failed_Response (Json (JObj [(''error'', JStr ''Title is required'')])))
        (board [sample_task 3 ''Round'' ''todo'']))
   \<and> reports_failure (board [sample_task 3 ''Round'' ''todo'']) (JStr ''Title is required'')
     (updateTaskStatus 3 ''in_progress''
        (Failed_Response (Json (JObj [(''error'', JStr ''Title is required'')])))
        (board [sample_task 3 ''Round'' ''todo'']))
   \<and> reports_failure (board [sample_task 3 ''Round'' ''todo'']) (JStr ''Failed to create task'')
     (createTask (sample_data [])
        (Failed_Response (Json (JObj [(''error'', JNum ''0'')])))
        (board [sample_task 3 ''Round'' ''todo'']))
   \<and> reports_failure (board [sample_task 3 ''Round'' ''todo'']) (JStr ''Failed to update task'')
     (updateTaskStatus 3 ''in_progress''
        (Failed_Response (Json (JStr ''Bad Gateway'')))
        (board [sample_task 3 ''Round'' ''todo'']))"
proof -
  let ?st = "board [sample_task 3 ''Round'' ''todo'']"
  have served: "property (JObj [(''error'', JStr ''Title is required'')]) ''error''
        = Inr (Some (JStr ''Title is required''))
      \<and> truthy (Some (JStr ''Title is required''))"
    by simp
  have zero: "property (JObj [(''error'', JNum ''0'')]) ''error'' = Inr (Some (JNum ''0''))
      \<and> \<not> truthy (Some (JNum ''0''))"
    by simp
  have plain: "property (JStr ''Bad Gateway'') ''error'' = Inr None \<and> \<not> truthy None"
    by simp
  from served task_failure_reported [of ?st "sample_data []" _
      "JObj [(''error'', JStr ''Title is required'')]" _ "JStr ''Title is required''"
      3 "''in_progress''"]
  have "reports_failure ?st (JStr ''Title is required'')
      (createTask (sample_data [])
        (Failed_Response (Json (JObj [(''error'', JStr ''Title is required'')]))) ?st)
    \<and> reports_failure ?st (JStr ''Title is required'')
      (updateTaskStatus 3 ''in_progress''
        (Failed_Response (Json (JObj [(''error'', JStr ''Title is required'')]))) ?st)"
    by blast
  moreover from zero task_failure_reported [of ?st "sample_data []" _
      "JObj [(''error'', JNum ''0'')]" "Some (JNum ''0'')"]
  have "reports_failure ?st (JStr ''Failed to create task'')
      (createTask (sample_data []) (Failed_Response (Json (JObj [(''error'', JNum ''0'')]))) ?st)"
    by blast
  moreover from plain task_failure_reported [of ?st _ _ "JStr ''Bad Gateway''" None _
      3 "''in_progress''"]
  have "reports_failure ?st (JStr ''Failed to update task'')
      (updateTaskStatus 3 ''in_progress'' (Failed_Response (Json (JStr ''Bad Gateway''))) ?st)"
    by blast
  ultimately show ?thesis by blast
qed

text \<open>
  A truthy value that is no string is enqueued like any other; an object among them is
  one that \<open>NotificationPanel\<close> cannot show.
\<close>

lemma object_message_enqueued:
  "message (last (notifications (createTask taskData
       (Failed_Response (Json (JObj [(''error'', JObj [(''code'', JNum ''42'')])]))) st)))
     = JObj [(''code'', JNum ''42'')]
   \<and> \<not> renders (JObj [(''code'', JNum ''42'')])"
  by (simp add: createTask_def Let_def js_or_def addNotification_fields)

text \<open>
  Claim C5. For every successful \<open>createTask\<close> call the task the server returns becomes
  the first element of the local collection, the tasks held before following in their
  order; a success notification is enqueued; the create modal is closed. When the
  server echoes the status \<open>todo\<close>, the new task is first in the \<open>todo\<close> bucket.
\<close>

theorem createTask_success:
  "tasks (createTask taskData (Ok_Response (Json newTask)) st) = newTask # tasks st
   \<and> notifications (createTask taskData (Ok_Response (Json newTask)) st) =
       notifications st
         @ [\<lparr>nid = now st, message = JStr ''Task created successfully!'', ntype = ''success''\<rparr>]
   \<and> showCreateTask (createTask taskData (Ok_Response (Json newTask)) st) = False
   \<and> (status newTask = ''todo'' \<longrightarrow>
        hd (todo (tasksByStatus (tasks (createTask taskData (Ok_Response (Json newTask)) st))))
          = newTask)"
proof -
  let ?st' = "createTask taskData (Ok_Response (Json newTask)) st"
  have prepended: "tasks ?st' = newTask # tasks st"
    by (simp add: createTask_def Let_def addNotification_fields)
  have notified: "notifications ?st' =
       notifications st
         @ [\<lparr>nid = now st, message = JStr ''Task created successfully!'', ntype = ''success''\<rparr>]"
    by (simp add: createTask_def Let_def addNotification_fields)
  have closed: "showCreateTask ?st' = False"
    by (simp add: createTask_def Let_def)
  have first: "status newTask = ''todo'' \<longrightarrow> hd (todo (tasksByStatus (tasks ?st'))) = newTask"
    by (simp add: prepended tasksByStatus_def)
  from prepended notified closed first show ?thesis by blast
qed

theorem createTask_success_witness:
  "tasks (createTask (sample_data ''Check vitals'')
            (Ok_Response (Json (sample_task 7 ''Check vitals'' ''todo'')))
            (board [sample_task 3 ''Round'' ''todo'']))
     = [sample_task 7 ''Check vitals'' ''todo'', sample_task 3 ''Round'' ''todo'']
   \<and> hd (todo (tasksByStatus (tasks (createTask (sample_data ''Check vitals'')
            (Ok_Response (Json (sample_task 7 ''Check vitals'' ''todo'')))
            (board [sample_task 3 ''Round'' ''todo'']))))) 
     = sample_task 7 ''Check vitals'' ''todo''"
proof -
  note c = createTask_success [of "sample_data ''Check vitals''"
      "sample_task 7 ''Check vitals'' ''todo''" "board [sample_task 3 ''Round'' ''todo'']"]
  have h: "status (sample_task 7 ''Check vitals'' ''todo'') = ''todo''"
    by simp
  from c have "tasks (createTask (sample_data ''Check vitals'')
        (Ok_Response (Json (sample_task 7 ''Check vitals'' ''todo'')))
        (board [sample_task 3 ''Round'' ''todo'']))
      = sample_task 7 ''Check vitals'' ''todo'' # tasks (board [sample_task 3 ''Round'' ''todo''])"
    by blast
  moreover from c h have "hd (todo (tasksByStatus (tasks (createTask (sample_data ''Check vitals'')
        (Ok_Response (Json (sample_task 7 ''Check vitals'' ''todo'')))
        (board [sample_task 3 ''Round'' ''todo''])))))
      = sample_task 7 ''Check vitals'' ''todo''"
    by blast
  ultimately show ?thesis by simp
qed

text \<open>
  Claim C10. For every successful \<open>updateTaskStatus\<close> call the collection keeps its
  length and every task whose id differs from the given id stays what it was, at its
  position; when no task has the given id the whole collection is unchanged. The
  success notification is enqueued in either case.
\<close>

theorem updateTaskStatus_frame:
  "length (tasks (updateTaskStatus taskId s (Ok_Response (Json updatedTask)) st))
     = length (tasks st)
   \<and> (\<forall>i < length (tasks st). task_id (tasks st ! i) \<noteq> taskId \<longrightarrow>
         tasks (updateTaskStatus taskId s (Ok_Response (Json updatedTask)) st) ! i = tasks st ! i)
   \<and> ((\<forall>t \<in> set (tasks st). task_id t \<noteq> taskId) \<longrightarrow>
         tasks (updateTaskStatus taskId s (Ok_Response (Json updatedTask)) st) = tasks st)
   \<and> notifications (updateTaskStatus taskId s (Ok_Response (Json updatedTask)) st) =
       notifications st
         @ [\<lparr>nid = now st, message = JStr ''Task updated successfully!'', ntype = ''success''\<rparr>]"
proof -
  let ?st' = "updateTaskStatus taskId s (Ok_Response (Json updatedTask)) st"
  have mapped: "tasks ?st' = map (\<lambda>t. if task_id t = taskId then updatedTask else t) (tasks st)"
    by (simp add: updateTaskStatus_def Let_def addNotification_fields)
  have notified: "notifications ?st' =
       notifications st
         @ [\<lparr>nid = now st, message = JStr ''Task updated successfully!'', ntype = ''success''\<rparr>]"
    by (simp add: updateTaskStatus_def Let_def addNotification_fields)
  have same_length: "length (tasks ?st') = length (tasks st)"
    by (simp add: mapped)
  have others: "\<forall>i < length (tasks st). task_id (tasks st ! i) \<noteq> taskId \<longrightarrow>
      tasks ?st' ! i = tasks st ! i"
    by (simp add: mapped)
  have absent: "(\<forall>t \<in> set (tasks st). task_id t \<noteq> taskId) \<longrightarrow> tasks ?st' = tasks st"
    by (simp add: mapped map_idI)
  from same_length others absent notified show ?thesis by blast
qed

theorem updateTaskStatus_frame_witness:
  "tasks (updateTaskStatus 9 ''completed'' (Ok_Response (Json (sample_task 9 ''Lab'' ''completed'')))
            (board [sample_task 3 ''Round'' ''todo'', sample_task 4 ''Chart'' ''in_progress'']))
     = [sample_task 3 ''Round'' ''todo'', sample_task 4 ''Chart'' ''in_progress'']
   \<and> tasks (updateTaskStatus 4 ''completed'' (Ok_Response (Json (sample_task 4 ''Chart'' ''completed'')))
            (board [sample_task 3 ''Round'' ''todo'', sample_task 4 ''Chart'' ''in_progress''])) ! 0
     = sample_task 3 ''Round'' ''todo''"
proof -
  let ?ts = "[sample_task 3 ''Round'' ''todo'', sample_task 4 ''Chart'' ''in_progress'']"
  note absent = updateTaskStatus_frame [of 9 "''completed''" "sample_task 9 ''Lab'' ''completed''"
      "board ?ts"]
  note present = updateTaskStatus_frame [of 4 "''completed''" "sample_task 4 ''Chart'' ''completed''"
      "board ?ts"]
  have none: "\<forall>t \<in> set (tasks (board ?ts)). task_id t \<noteq> 9"
    by simp
  have other: "0 < length (tasks (board ?ts)) \<and> task_id (tasks (board ?ts) ! 0) \<noteq> 4"
    by simp
  from absent none
  have "tasks (updateTaskStatus 9 ''completed''
          (Ok_Response (Json (sample_task 9 ''Lab'' ''completed''))) (board ?ts))
      = tasks (board ?ts)"
    by blast
  moreover from present other
  have "tasks (updateTaskStatus 4 ''completed''
          (Ok_Response (Json (sample_task 4 ''Chart'' ''completed''))) (board ?ts)) ! 0
      = tasks (board ?ts) ! 0"
    by blast
  ultimately show ?thesis by simp
qed

section \<open>Loading tasks\<close>

text \<open>
  Claim C8. For every failing \<open>loadTasks\<close> call (a response that is not ok, or a
  network error) the local collection is untouched and no notification is produced:
  beyond the request sent and what is logged to the console, the state differs only in
  the loading flag, which is cleared.
\<close>

theorem loadTasks_failure_silent:
  "silent_failure st (loadTasks (Rejected m) st)
   \<and> silent_failure st (loadTasks (Failed_Response body) st)"
proof -
  have network: "silent_failure st (loadTasks (Rejected m) st)"
    by (simp add: silent_failure_def loadTasks_def Let_def)
  have refused: "silent_failure st (loadTasks (Failed_Response body) st)"
    by (simp add: silent_failure_def loadTasks_def Let_def)
  from network refused show ?thesis by blast
qed

section \<open>Registration form\<close>

text \<open>
  Claim C9. For every registration submission with all four fields filled in and an
  administrator password shorter than 8 characters, no request is sent and one error
  notification with the message \<open>Password must be at least 8 characters\<close> is enqueued;
  nothing else of the state changes. The check runs in the form, before \<open>register\<close>.
\<close>

theorem register_short_password:
  assumes "organizationName formData \<noteq> []" and "adminName formData \<noteq> []"
    and "adminEmail formData \<noteq> []" and "adminPassword formData \<noteq> []"
    and "length (adminPassword formData) < 8"
  shows "register_handleSubmit stringify formData res st =
           addNotification (JStr ''Password must be at least 8 characters'') ''error'' st
    \<and> sent (register_handleSubmit stringify formData res st) = sent st
    \<and> notifications (register_handleSubmit stringify formData res st) =
        notifications st
          @ [\<lparr>nid = now st, message = JStr ''Password must be at least 8 characters'', ntype = ''error''\<rparr>]"
proof -
  from assms have "register_handleSubmit stringify formData res st =
      addNotification (JStr ''Password must be at least 8 characters'') ''error'' st"
    by (simp add: register_handleSubmit_def)
  then show ?thesis
    by (simp add: addNotification_fields)
qed

theorem register_short_password_witness:
  "sent (register_handleSubmit (\<lambda>u. []) (sample_form ''1234567'')
           (Ok_Response (Json \<lparr>data_token = ''t'', data_user = ()\<rparr>)) (board [])) = []
   \<and> notifications (register_handleSubmit (\<lambda>u. []) (sample_form ''1234567'')
           (Ok_Response (Json \<lparr>data_token = ''t'', data_user = ()\<rparr>)) (board []))
       = [\<lparr>nid = 1000, message = JStr ''Password must be at least 8 characters'', ntype = ''error''\<rparr>]"
proof -
  have h: "organizationName (sample_form ''1234567'') \<noteq> []" "adminName (sample_form ''1234567'') \<noteq> []"
    "adminEmail (sample_form ''1234567'') \<noteq> []" "adminPassword (sample_form ''1234567'') \<noteq> []"
    "length (adminPassword (sample_form ''1234567'')) < 8"
    by (simp_all add: sample_form_def)
  from register_short_password [OF h, of "\<lambda>u. []"
      "Ok_Response (Json \<lparr>data_token = ''t'', data_user = ()\<rparr>)" "board []"]
  have "sent (register_handleSubmit (\<lambda>u. []) (sample_form ''1234567'')
           (Ok_Response (Json \<lparr>data_token = ''t'', data_user = ()\<rparr>)) (board [])) = sent (board [])
    \<and> notifications (register_handleSubmit (\<lambda>u. []) (sample_form ''1234567'')
           (Ok_Response (Json \<lparr>data_token = ''t'', data_user = ()\<rparr>)) (board []))
       = notifications (board [])
          @ [\<lparr>nid = now (board []), message = JStr ''Password must be at least 8 characters'', ntype = ''error''\<rparr>]"
    by blast
  then show ?thesis by simp
qed

section \<open>Session store\<close>

text \<open>
  Claim C7, as the specification states it, fails. A response that is not ok and whose
  body is not JSON makes \<open>login\<close> throw the \<open>SyntaxError\<close> of \<open>response.json()\<close>, and
  the body \<open>null\<close> the \<open>TypeError\<close> of \<open>error.error\<close>: neither has an \<open>error\<close> field
  and neither gives the error with the default message. An \<open>error\<close> field that is the
  empty string gives the default message, not the field.
\<close>

theorem login_failure_counterexample:
  "js_string (spec_failure_message (Invalid_Json ''Unexpected token <'') ''Login failed'')
     = Inr ''Login failed''
   \<and> fst (login (\<lambda>u. []) ''ada@metro.org'' ''secret''
          (Failed_Response (Invalid_Json ''Unexpected token <'')) (board []))
     \<noteq> Inl (Error ''Login failed'')
   \<and> js_string (spec_failure_message (Json JNull) ''Login failed'') = Inr ''Login failed''
   \<and> fst (login (\<lambda>u. []) ''ada@metro.org'' ''secret'' (Failed_Response (Json JNull)) (board []))
     \<noteq> Inl (Error ''Login failed'')
   \<and> js_string (spec_failure_message (Json (JObj [(''error'', JStr [])])) ''Login failed'') = Inr []
   \<and> fst (login (\<lambda>u. []) ''ada@metro.org'' ''secret''
          (Failed_Response (Json (JObj [(''error'', JStr [])]))) (board []))
     \<noteq> Inl (Error [])"
  by (simp add: login_def Let_def failure_def js_or_def spec_failure_message_def)

text \<open>
  Claim C7, amended. Every login call that receives a response that is not ok fails, and
  the failure goes to the caller: \<open>login\<close> returns an error and, beyond the request
  sent, leaves the state as it was, with nothing persisted and no notification. The
  error is an \<open>Error\<close> (the authentication error of the specification) that carries
  the \<open>error\<close> property of the body, as a string, when the body is JSON other than
  \<open>null\<close> and the property is truthy, and \<open>Login failed\<close> when the property is missing
  or falsy. It is the \<open>SyntaxError\<close> of \<open>response.json()\<close> when the body is not JSON,
  the \<open>TypeError\<close> of the property read when the body is \<open>null\<close>, and the \<open>TypeError\<close>
  of the conversion when the property has no string.
\<close>

theorem login_failure:
  "(\<exists>e. login stringify em pw (Failed_Response response) st =
          (Inl e, st\<lparr>sent := sent st @ [POST_login em pw]\<rparr>))
   \<and> login stringify em pw (Failed_Response (Invalid_Json m)) st =
     (Inl (SyntaxError m), st\<lparr>sent := sent st @ [POST_login em pw]\<rparr>)
   \<and> login stringify em pw (Failed_Response (Json JNull)) st =
     (Inl (TypeError (null_read ''error'')), st\<lparr>sent := sent st @ [POST_login em pw]\<rparr>)
   \<and> (property body ''error'' = Inr v \<and> \<not> truthy v \<longrightarrow>
       login stringify em pw (Failed_Response (Json body)) st =
         (Inl (Error ''Login failed''), st\<lparr>sent := sent st @ [POST_login em pw]\<rparr>))
   \<and> (property body ''error'' = Inr (Some x) \<and> truthy (Some x) \<and> js_string x = Inr shown \<longrightarrow>
       login stringify em pw (Failed_Response (Json body)) st =
         (Inl (Error shown), st\<lparr>sent := sent st @ [POST_login em pw]\<rparr>))
   \<and> (property body ''error'' = Inr (Some (JStr e)) \<and> e \<noteq> [] \<longrightarrow>
       login stringify em pw (Failed_Response (Json body)) st =
         (Inl (Error e), st\<lparr>sent := sent st @ [POST_login em pw]\<rparr>))
   \<and> (property body ''error'' = Inr (Some x) \<and> truthy (Some x) \<and> js_string x = Inl unshown \<longrightarrow>
       login stringify em pw (Failed_Response (Json body)) st =
         (Inl unshown, st\<lparr>sent := sent st @ [POST_login em pw]\<rparr>))"
proof -
  let ?st' = "st\<lparr>sent := sent st @ [POST_login em pw]\<rparr>"
  have falsy: "js_or v d = d" if "\<not> truthy v" for d
    using that by (cases v) (simp_all add: js_or_simps)
  have thrown: "\<exists>e. login stringify em pw (Failed_Response response) st = (Inl e, ?st')"
    by (cases response) (simp_all add: login_def Let_def)
  have unparsed: "login stringify em pw (Failed_Response (Invalid_Json m)) st
      = (Inl (SyntaxError m), ?st')"
    by (simp add: login_def Let_def)
  have null: "login stringify em pw (Failed_Response (Json JNull)) st
      = (Inl (TypeError (null_read ''error'')), ?st')"
    by (simp add: login_def Let_def failure_def)
  have default: "login stringify em pw (Failed_Response (Json body)) st
      = (Inl (Error ''Login failed''), ?st')"
    if "property body ''error'' = Inr v" and "\<not> truthy v"
    using that by (simp add: login_def Let_def failure_def falsy)
  have served: "login stringify em pw (Failed_Response (Json body)) st
      = (Inl (Error shown), ?st')"
    if "property body ''error'' = Inr (Some x)" and "truthy (Some x)" and "js_string x = Inr shown"
    for x shown
    using that by (simp add: login_def Let_def failure_def js_or_simps)
  have served_string: "login stringify em pw (Failed_Response (Json body)) st
      = (Inl (Error e), ?st')"
    if "property body ''error'' = Inr (Some (JStr e))" and "e \<noteq> []"
    using served [of "JStr e" e] that by simp
  have unconverted: "login stringify em pw (Failed_Response (Json body)) st
      = (Inl unshown, ?st')"
    if "property body ''error'' = Inr (Some x)" and "truthy (Some x)" and "js_string x = Inl unshown"
    using that by (simp add: login_def Let_def failure_def js_or_simps)
  from thrown unparsed null default served served_string unconverted show ?thesis by blast
qed

theorem login_failure_witness:
  "login (\<lambda>u. []) ''ada@metro.org'' ''secret''
       (Failed_Response (Json (JObj [(''error'', JStr ''Invalid credentials'')]))) (board [])
     = (Inl (Error ''Invalid credentials''),
        (board [])\<lparr>sent := sent (board []) @ [POST_login ''ada@metro.org'' ''secret'']\<rparr>)
   \<and> login (\<lambda>u. []) ''ada@metro.org'' ''secret''
       (Failed_Response (Json (JObj [(''error'', JBool False)]))) (board [])
     = (Inl (Error ''Login failed''),
        (board [])\<lparr>sent := sent (board []) @ [POST_login ''ada@metro.org'' ''secret'']\<rparr>)
   \<and> login (\<lambda>u. []) ''ada@metro.org'' ''secret''
       (Failed_Response (Json (JObj [(''error'', JNum ''503'')]))) (board [])
     = (Inl (Error ''503''),
        (board [])\<lparr>sent := sent (board []) @ [POST_login ''ada@metro.org'' ''secret'']\<rparr>)"
proof -
  let ?st' = "(board [])\<lparr>sent := sent (board []) @ [POST_login ''ada@metro.org'' ''secret'']\<rparr>"
  have string_field: "property (JObj [(''error'', JStr ''Invalid credentials'')]) ''error''
        = Inr (Some (JStr ''Invalid credentials'')) \<and> ''Invalid credentials'' \<noteq> []"
    by simp
  have false_field: "property (JObj [(''error'', JBool False)]) ''error'' = Inr (Some (JBool False))
      \<and> \<not> truthy (Some (JBool False))"
    by simp
  have number_field: "property (JObj [(''error'', JNum ''503'')]) ''error'' = Inr (Some (JNum ''503''))
      \<and> truthy (Some (JNum ''503'')) \<and> js_string (JNum ''503'') = Inr ''503''"
    by simp
  from string_field login_failure [of "\<lambda>u. []" "''ada@metro.org''" "''secret''" _ "board []" _
      "JObj [(''error'', JStr ''Invalid credentials'')]" _ _ _ "''Invalid credentials''"]
  have "login (\<lambda>u. []) ''ada@metro.org'' ''secret''
       (Failed_Response (Json (JObj [(''error'', JStr ''Invalid credentials'')]))) (board [])
     = (Inl (Error ''Invalid credentials''), ?st')"
    by blast
  moreover from false_field login_failure [of "\<lambda>u. []" "''ada@metro.org''" "''secret''" _ "board []" _
      "JObj [(''error'', JBool False)]" "Some (JBool False)"]
  have "login (\<lambda>u. []) ''ada@metro.org'' ''secret''
       (Failed_Response (Json (JObj [(''error'', JBool False)]))) (board [])
     = (Inl (Error ''Login failed''), ?st')"
    by blast
  moreover from number_field login_failure [of "\<lambda>u. []" "''ada@metro.org''" "''secret''" _ "board []" _
      "JObj [(''error'', JNum ''503'')]" _ "JNum ''503''" "''503''"]
  have "login (\<lambda>u. []) ''ada@metro.org'' ''secret''
       (Failed_Response (Json (JObj [(''error'', JNum ''503'')]))) (board [])
     = (Inl (Error ''503''), ?st')"
    by blast
  ultimately show ?thesis by blast
qed

lemma setItem_cases:
  "quota st ((storage st)(k \<mapsto> v)) \<Longrightarrow> setItem k v st = Inr (st\<lparr>storage := (storage st)(k \<mapsto> v)\<rparr>)"
  "\<not> quota st ((storage st)(k \<mapsto> v)) \<Longrightarrow> setItem k v st = Inl (QuotaExceededError (quota_exceeded k))"
  by (simp_all add: setItem_def)

lemma persist_session_returns:
  assumes "fst (persist_session stringify data st) = Inr d"
  shows "storage (snd (persist_session stringify data st)) ''shiftflow_token'' = Some (data_token d)"
    and "storage (snd (persist_session stringify data st)) ''shiftflow_user''
           = Some (stringify (data_user d))"
  using assms
  by (auto simp add: persist_session_def setItem_def split: if_splits)

lemma persist_session_accepted:
  assumes "quota st ((storage st)(''shiftflow_token'' \<mapsto> data_token data))"
    and "quota st ((storage st)(''shiftflow_token'' \<mapsto> data_token data,
                               ''shiftflow_user'' \<mapsto> stringify (data_user data)))"
  shows "fst (persist_session stringify data st) = Inr data"
  using assms by (simp add: persist_session_def setItem_def)

lemma persist_session_refused:
  assumes "\<not> quota st ((storage st)(''shiftflow_token'' \<mapsto> data_token data))"
  shows "persist_session stringify data st
           = (Inl (QuotaExceededError (quota_exceeded ''shiftflow_token'')), st)"
  using assms by (simp add: persist_session_def setItem_def)

lemma login_returns:
  "fst (login stringify em pw res st) = Inr d \<Longrightarrow>
   \<exists>data. res = Ok_Response (Json data)
     \<and> login stringify em pw res st
         = persist_session stringify data (st\<lparr>sent := sent st @ [POST_login em pw]\<rparr>)"
  by (auto simp add: login_def Let_def split: fetch_result.splits json_result.splits)

lemma register_returns:
  "fst (register stringify organizationData res st) = Inr d \<Longrightarrow>
   \<exists>data. res = Ok_Response (Json data)
     \<and> register stringify organizationData res st
         = persist_session stringify data (st\<lparr>sent := sent st @ [POST_register organizationData]\<rparr>)"
  by (auto simp add: register_def Let_def split: fetch_result.splits json_result.splits)

text \<open>
  Claim C1, as the specification states it, fails. \<open>login\<close> writes the two entries with
  two \<open>setItem\<close> calls; when the storage takes the token and not the serialised user,
  the second call throws, \<open>login\<close> throws with it, and the token alone stays
  persisted.
\<close>

theorem session_entries_counterexample:
  "storage (snd (login (\<lambda>u. ''Ada Lovelace, Metro General Hospital'') ''ada@metro.org'' ''secret''
       (Ok_Response (Json \<lparr>data_token = ''abc'', data_user = ()\<rparr>))
       (initial Map.empty (session_within 10) 0))) ''shiftflow_token'' = Some ''abc''
   \<and> storage (snd (login (\<lambda>u. ''Ada Lovelace, Metro General Hospital'') ''ada@metro.org'' ''secret''
       (Ok_Response (Json \<lparr>data_token = ''abc'', data_user = ()\<rparr>))
       (initial Map.empty (session_within 10) 0))) ''shiftflow_user'' = None
   \<and> \<not> entries_together (snd (login (\<lambda>u. ''Ada Lovelace, Metro General Hospital'') ''ada@metro.org'' ''secret''
       (Ok_Response (Json \<lparr>data_token = ''abc'', data_user = ()\<rparr>))
       (initial Map.empty (session_within 10) 0)))"
  by (simp add: login_def Let_def persist_session_def setItem_def initial_def session_within_def
      entries_together_def)

text \<open>
  Claim C1, amended. A login or a registration that returns has written both entries,
  the token and the serialised user of the response; it returns whenever the response
  is ok, parses to an object with a token and a user, and the storage takes both writes. When the storage refuses the first
  write, nothing is written. Logout removes both entries, and so does a failed startup
  probe (a persisted token that is not empty, and a rejected request or a response that
  is not ok).
\<close>

theorem session_entries_together:
  "(fst (login stringify em pw res st) = Inr d \<longrightarrow>
      storage (snd (login stringify em pw res st)) ''shiftflow_token'' = Some (data_token d)
      \<and> storage (snd (login stringify em pw res st)) ''shiftflow_user''
          = Some (stringify (data_user d))
      \<and> both_persisted (snd (login stringify em pw res st)))
   \<and> (fst (register stringify organizationData res st) = Inr d \<longrightarrow>
      storage (snd (register stringify organizationData res st)) ''shiftflow_token''
          = Some (data_token d)
      \<and> storage (snd (register stringify organizationData res st)) ''shiftflow_user''
          = Some (stringify (data_user d))
      \<and> both_persisted (snd (register stringify organizationData res st)))
   \<and> (quota st ((storage st)(''shiftflow_token'' \<mapsto> data_token data))
      \<and> quota st ((storage st)(''shiftflow_token'' \<mapsto> data_token data,
                                ''shiftflow_user'' \<mapsto> stringify (data_user data))) \<longrightarrow>
      fst (login stringify em pw (Ok_Response (Json data)) st) = Inr data
      \<and> fst (register stringify organizationData (Ok_Response (Json data)) st) = Inr data)
   \<and> (\<not> quota st ((storage st)(''shiftflow_token'' \<mapsto> data_token data)) \<longrightarrow>
      storage (snd (login stringify em pw (Ok_Response (Json data)) st)) = storage st
      \<and> storage (snd (register stringify organizationData (Ok_Response (Json data)) st))
          = storage st)
   \<and> both_cleared (logout st)
   \<and> (storage st ''shiftflow_token'' = Some savedToken \<and> savedToken \<noteq> [] \<longrightarrow>
        both_cleared (startup_probe parse (Rejected m) st)
        \<and> both_cleared (startup_probe parse (Failed_Response body) st))"
proof -
  have logged_in:
    "storage (snd (login stringify em pw res st)) ''shiftflow_token'' = Some (data_token d)
     \<and> storage (snd (login stringify em pw res st)) ''shiftflow_user''
         = Some (stringify (data_user d))
     \<and> both_persisted (snd (login stringify em pw res st))"
    if ret: "fst (login stringify em pw res st) = Inr d"
  proof -
    from login_returns [OF ret] obtain data where
      eq: "login stringify em pw res st
        = persist_session stringify data (st\<lparr>sent := sent st @ [POST_login em pw]\<rparr>)"
      by blast
    from ret have "fst (persist_session stringify data (st\<lparr>sent := sent st @ [POST_login em pw]\<rparr>))
        = Inr d"
      by (simp add: eq)
    from persist_session_returns [OF this] show ?thesis
      by (simp add: eq both_persisted_def)
  qed
  have registered:
    "storage (snd (register stringify organizationData res st)) ''shiftflow_token''
         = Some (data_token d)
     \<and> storage (snd (register stringify organizationData res st)) ''shiftflow_user''
         = Some (stringify (data_user d))
     \<and> both_persisted (snd (register stringify organizationData res st))"
    if ret: "fst (register stringify organizationData res st) = Inr d"
  proof -
    from register_returns [OF ret] obtain data where
      eq: "register stringify organizationData res st
        = persist_session stringify data (st\<lparr>sent := sent st @ [POST_register organizationData]\<rparr>)"
      by blast
    from ret have "fst (persist_session stringify data
        (st\<lparr>sent := sent st @ [POST_register organizationData]\<rparr>)) = Inr d"
      by (simp add: eq)
    from persist_session_returns [OF this] show ?thesis
      by (simp add: eq both_persisted_def)
  qed
  have accepted:
    "fst (login stringify em pw (Ok_Response (Json data)) st) = Inr data
     \<and> fst (register stringify organizationData (Ok_Response (Json data)) st) = Inr data"
    if "quota st ((storage st)(''shiftflow_token'' \<mapsto> data_token data))"
      and "quota st ((storage st)(''shiftflow_token'' \<mapsto> data_token data,
                                 ''shiftflow_user'' \<mapsto> stringify (data_user data)))"
    using that by (simp add: login_def register_def Let_def persist_session_accepted)
  have refused:
    "storage (snd (login stringify em pw (Ok_Response (Json data)) st)) = storage st
     \<and> storage (snd (register stringify organizationData (Ok_Response (Json data)) st))
         = storage st"
    if "\<not> quota st ((storage st)(''shiftflow_token'' \<mapsto> data_token data))"
    using that by (simp add: login_def register_def Let_def persist_session_refused)
  have logged_out: "both_cleared (logout st)"
    by (simp add: both_cleared_def logout_def)
  have probe: "both_cleared (startup_probe parse (Rejected m) st)
      \<and> both_cleared (startup_probe parse (Failed_Response body) st)"
    if "storage st ''shiftflow_token'' = Some savedToken" and "savedToken \<noteq> []"
    using that by (simp add: both_cleared_def startup_probe_def clear_session_def Let_def)
  from logged_in registered accepted refused logged_out probe show ?thesis
    by blast
qed


theorem session_entries_together_witness:
  "storage (snd (login (\<lambda>u. ''Ada'') ''ada@metro.org'' ''secret''
       (Ok_Response (Json \<lparr>data_token = ''abc'', data_user = ()\<rparr>)) (board []))) ''shiftflow_token''
     = Some ''abc''
   \<and> storage (snd (login (\<lambda>u. ''Ada'') ''ada@metro.org'' ''secret''
       (Ok_Response (Json \<lparr>data_token = ''abc'', data_user = ()\<rparr>)) (board []))) ''shiftflow_user''
     = Some ''Ada''
   \<and> storage (snd (register (\<lambda>u. ''Ada'') (sample_form ''12345678'')
       (Ok_Response (Json \<lparr>data_token = ''abc'', data_user = ()\<rparr>)) (board []))) ''shiftflow_user''
     = Some ''Ada''
   \<and> storage (snd (login (\<lambda>u. ''Ada'') ''ada@metro.org'' ''secret''
       (Ok_Response (Json \<lparr>data_token = ''abc'', data_user = ()\<rparr>))
       (initial Map.empty (session_within 2) 0))) = Map.empty
   \<and> both_cleared (startup_probe (\<lambda>s. Some ()) (Rejected ''Failed to fetch'' :: unit fetch_result)
      (initial [''shiftflow_token'' \<mapsto> ''abc'', ''shiftflow_user'' \<mapsto> ''{}''] unlimited 0 :: unit app))
   \<and> both_cleared (startup_probe (\<lambda>s. Some ()) (Failed_Response (Json JNull) :: unit fetch_result)
      (initial [''shiftflow_token'' \<mapsto> ''abc'', ''shiftflow_user'' \<mapsto> ''{}''] unlimited 0 :: unit app))"
proof -
  let ?data = "\<lparr>data_token = ''abc'', data_user = ()\<rparr>"
  let ?full = "initial Map.empty (session_within 2) 0 :: unit app"
  let ?kept = "initial [''shiftflow_token'' \<mapsto> ''abc'', ''shiftflow_user'' \<mapsto> ''{}''] unlimited 0
    :: unit app"
  have takes: "quota (board []) ((storage (board []))(''shiftflow_token'' \<mapsto> data_token ?data))
      \<and> quota (board []) ((storage (board []))(''shiftflow_token'' \<mapsto> data_token ?data,
            ''shiftflow_user'' \<mapsto> (\<lambda>u. ''Ada'') (data_user ?data)))"
    by (simp add: unlimited_def)
  from takes session_entries_together [of "\<lambda>u. ''Ada''" "''ada@metro.org''" "''secret''" _ "board []"
      _ "sample_form ''12345678''" ?data]
  have returned: "fst (login (\<lambda>u. ''Ada'') ''ada@metro.org'' ''secret'' (Ok_Response (Json ?data)) (board []))
        = Inr ?data
      \<and> fst (register (\<lambda>u. ''Ada'') (sample_form ''12345678'') (Ok_Response (Json ?data)) (board []))
        = Inr ?data"
    by blast
  from returned session_entries_together [of "\<lambda>u. ''Ada''" "''ada@metro.org''" "''secret''"
      "Ok_Response (Json ?data)" "board []" ?data "sample_form ''12345678''"]
  have written: "storage (snd (login (\<lambda>u. ''Ada'') ''ada@metro.org'' ''secret''
          (Ok_Response (Json ?data)) (board []))) ''shiftflow_token'' = Some (data_token ?data)
      \<and> storage (snd (login (\<lambda>u. ''Ada'') ''ada@metro.org'' ''secret''
          (Ok_Response (Json ?data)) (board []))) ''shiftflow_user'' = Some ((\<lambda>u. ''Ada'') (data_user ?data))
      \<and> storage (snd (register (\<lambda>u. ''Ada'') (sample_form ''12345678'')
          (Ok_Response (Json ?data)) (board []))) ''shiftflow_user'' = Some ((\<lambda>u. ''Ada'') (data_user ?data))"
    by blast
  have full: "\<not> quota ?full ((storage ?full)(''shiftflow_token'' \<mapsto> data_token ?data))"
    by (simp add: initial_def session_within_def)
  from full session_entries_together [of "\<lambda>u. ''Ada''" "''ada@metro.org''" "''secret''" _ ?full
      _ _ ?data]
  have unwritten: "storage (snd (login (\<lambda>u. ''Ada'') ''ada@metro.org'' ''secret''
      (Ok_Response (Json ?data)) ?full)) = storage ?full"
    by blast
  have token: "storage ?kept ''shiftflow_token'' = Some ''abc'' \<and> ''abc'' \<noteq> []"
    by (simp add: initial_def)
  from token session_entries_together [of _ _ _ _ ?kept _ _ _ "''abc''" "\<lambda>s. Some ()"
      "''Failed to fetch''" "Json JNull", where ?'c = unit]
  have cleared: "both_cleared (startup_probe (\<lambda>s. Some ()) (Rejected ''Failed to fetch'' :: unit fetch_result) ?kept)
      \<and> both_cleared (startup_probe (\<lambda>s. Some ()) (Failed_Response (Json JNull) :: unit fetch_result) ?kept)"
    by blast
  from written have written': "storage (snd (login (\<lambda>u. ''Ada'') ''ada@metro.org'' ''secret''
          (Ok_Response (Json ?data)) (board []))) ''shiftflow_token'' = Some ''abc''
      \<and> storage (snd (login (\<lambda>u. ''Ada'') ''ada@metro.org'' ''secret''
          (Ok_Response (Json ?data)) (board []))) ''shiftflow_user'' = Some ''Ada''
      \<and> storage (snd (register (\<lambda>u. ''Ada'') (sample_form ''12345678'')
          (Ok_Response (Json ?data)) (board []))) ''shiftflow_user'' = Some ''Ada''"
    by simp
  have "storage ?full = Map.empty"
    by (simp add: initial_def)
  with unwritten have unwritten': "storage (snd (login (\<lambda>u. ''Ada'') ''ada@metro.org'' ''secret''
      (Ok_Response (Json ?data)) ?full)) = Map.empty"
    by simp
  from written' unwritten' cleared show ?thesis
    by blast
qed

section \<open>Lifetime of a notification\<close>

lemma expire_all_notifications:
  "notifications (fold (\<lambda>p. expire (snd p)) due st) =
     filter (\<lambda>n. nid n \<notin> snd ` set due) (notifications st)"
  by (induction due arbitrary: st) (simp_all add: expire_def)

lemma expire_all_timers: "timers (fold (\<lambda>p. expire (snd p)) due st) = timers st"
  by (induction due arbitrary: st) (simp_all add: expire_def)

lemma expire_all_now: "now (fold (\<lambda>p. expire (snd p)) due st) = now st"
  by (induction due arbitrary: st) (simp_all add: expire_def)

lemma elapse_fields:
  "notifications (elapse d st) =
     filter (\<lambda>n. nid n \<notin> snd ` {p \<in> set (timers st). fst p \<le> now st + d}) (notifications st)"
  "timers (elapse d st) = filter (\<lambda>p. \<not> fst p \<le> now st + d) (timers st)"
  "now (elapse d st) = now st + d"
  by (simp_all add: elapse_def Let_def case_prod_unfold expire_all_notifications)

lemma queue_ok_mounted: "mounted st \<Longrightarrow> queue_ok st"
  by (simp add: mounted_def queue_ok_def)

lemma queue_ok_addNotification: "queue_ok st \<Longrightarrow> queue_ok (addNotification msg type st)"
  by (auto simp add: queue_ok_def addNotification_fields)

lemma queue_ok_removeNotification: "queue_ok st \<Longrightarrow> queue_ok (removeNotification i st)"
  by (auto simp add: queue_ok_def removeNotification_fields)

lemma queue_ok_elapse: "queue_ok st \<Longrightarrow> queue_ok (elapse d st)"
  unfolding queue_ok_def elapse_fields
  by (force simp add: image_iff)

lemma queue_ok_step: "queue_ok st \<Longrightarrow> queue_ok (step e st)"
  by (cases e) (simp_all add: queue_ok_addNotification queue_ok_removeNotification queue_ok_elapse)

lemma queue_ok_run: "queue_ok st \<Longrightarrow> queue_ok (run evs st)"
  unfolding run_def by (induction evs arbitrary: st) (simp_all add: queue_ok_step)

lemma young: "queue_ok st \<Longrightarrow> n \<in> set (notifications st) \<Longrightarrow> nid n \<le> now st \<and> now st < nid n + 5000"
  by (fastforce simp add: queue_ok_def)

lemma run_simps:
  "run [] st = st" "run (e # evs) st = run evs (step e st)"
  by (simp_all add: run_def)

lemma now_step: "now st \<le> now (step e st)"
  by (cases e) (simp_all add: addNotification_fields removeNotification_fields elapse_fields)

lemma now_run: "now st \<le> now (run evs st)"
proof (induction evs arbitrary: st)
  case Nil
  show ?case by (simp add: run_simps)
next
  case (Cons e evs)
  have "now st \<le> now (step e st)" by (rule now_step)
  also have "\<dots> \<le> now (run evs (step e st))" by (rule Cons.IH)
  finally show ?case by (simp add: run_simps)
qed

lemma stays_step:
  assumes ok: "queue_ok st" and n: "n \<in> set (notifications st)"
    and e: "e \<noteq> Dismiss (nid n)" and t: "now (step e st) < nid n + 5000"
  shows "n \<in> set (notifications (step e st))"
proof (cases e)
  case (Enqueue msg type)
  with n show ?thesis by (simp add: addNotification_fields)
next
  case (Dismiss i)
  with e n show ?thesis by (simp add: removeNotification_fields)
next
  case (Elapse d)
  with t have early: "now st + d < nid n + 5000"
    by (simp add: elapse_fields)
  have "\<forall>p \<in> set (timers st). fst p \<le> now st + d \<longrightarrow> snd p \<noteq> nid n"
    using ok early by (auto simp add: queue_ok_def)
  with n Elapse show ?thesis
    by (auto simp add: elapse_fields)
qed

lemma stays_run:
  assumes "queue_ok st" and "n \<in> set (notifications st)"
    and "Dismiss (nid n) \<notin> set evs" and "now (run evs st) < nid n + 5000"
  shows "n \<in> set (notifications (run evs st))"
  using assms
proof (induction evs arbitrary: st)
  case Nil
  then show ?case by (simp add: run_simps)
next
  case (Cons e evs)
  from Cons.prems(3) have e: "e \<noteq> Dismiss (nid n)" and evs: "Dismiss (nid n) \<notin> set evs"
    by auto
  from Cons.prems(4) have late: "now (run evs (step e st)) < nid n + 5000"
    by (simp add: run_simps)
  have "now (step e st) \<le> now (run evs (step e st))"
    by (rule now_run)
  with late have "now (step e st) < nid n + 5000"
    by simp
  with Cons.prems(1,2) e have "n \<in> set (notifications (step e st))"
    by (rule stays_step)
  with queue_ok_step [OF Cons.prems(1)] have "n \<in> set (notifications (run evs (step e st)))"
    using evs late by (rule Cons.IH)
  then show ?case by (simp add: run_simps)
qed

lemma bounded_step:
  "\<not> is_enqueue e \<Longrightarrow> \<forall>n \<in> set (notifications st). nid n \<le> T \<Longrightarrow>
   \<forall>n \<in> set (notifications (step e st)). nid n \<le> T"
  by (cases e) (simp_all add: removeNotification_fields elapse_fields)

lemma bounded_run:
  "no_enqueue evs \<Longrightarrow> \<forall>n \<in> set (notifications st). nid n \<le> T \<Longrightarrow>
   \<forall>n \<in> set (notifications (run evs st)). nid n \<le> T"
  unfolding run_def no_enqueue_def
proof (induction evs arbitrary: st)
  case Nil
  then show ?case by simp
next
  case (Cons e evs)
  from Cons.prems have e: "\<not> is_enqueue e" and evs: "list_all (\<lambda>e. \<not> is_enqueue e) evs"
    by simp_all
  from e Cons.prems(2) have "\<forall>n \<in> set (notifications (step e st)). nid n \<le> T"
    by (rule bounded_step)
  with evs have "\<forall>n \<in> set (notifications (fold step evs (step e st))). nid n \<le> T"
    by (rule Cons.IH)
  then show ?case by simp
qed

text \<open>
  Claim C6. Time is the clock of the page in milliseconds, and a timer runs when the
  clock reaches the time it is due. In every state the queue reaches from its mounting
  by enqueues, dismissals and the passing of time, an enqueue appends the new
  notification at the end of the queue. Whatever follows, further enqueues among it,
  the notification is in the queue as long as fewer than 5000 ms have passed and its id
  is not dismissed, and it is not in the queue once 5000 ms have passed; with nothing
  but time passing it is there exactly while fewer than 5000 ms have passed. When no
  enqueue follows, the queue is empty as soon as the clock is 5000 ms past the enqueue.
\<close>

theorem notification_lifetime:
  assumes "mounted st0" and "st = run history st0"
  shows "notifications (addNotification msg type st) =
           notifications st @ [\<lparr>nid = now st, message = msg, ntype = type\<rparr>]
    \<and> (\<lparr>nid = now st, message = msg, ntype = type\<rparr>
          \<in> set (notifications (elapse d (addNotification msg type st)))
         \<longleftrightarrow> d < 5000)
    \<and> (Dismiss (now st) \<notin> set later
        \<and> now (run later (addNotification msg type st)) < now st + 5000
         \<longrightarrow> \<lparr>nid = now st, message = msg, ntype = type\<rparr>
               \<in> set (notifications (run later (addNotification msg type st))))
    \<and> (now st + 5000 \<le> now (run later (addNotification msg type st))
         \<longrightarrow> \<lparr>nid = now st, message = msg, ntype = type\<rparr>
               \<notin> set (notifications (run later (addNotification msg type st))))
    \<and> (no_enqueue later
        \<and> now (addNotification msg type st) + 5000 \<le> now (run later (addNotification msg type st))
         \<longrightarrow> notifications (run later (addNotification msg type st)) = [])"
proof -
  let ?n = "\<lparr>nid = now st, message = msg, ntype = type\<rparr>"
  let ?st1 = "addNotification msg type st"
  from assms have ok: "queue_ok st"
    by (simp add: queue_ok_mounted queue_ok_run)
  then have ok1: "queue_ok ?st1"
    by (rule queue_ok_addNotification)
  have appended: "notifications ?st1 = notifications st @ [?n]"
    by (simp add: addNotification_fields)
  then have enqueued: "?n \<in> set (notifications ?st1)"
    by simp
  have kept: "?n \<in> set (notifications (run later ?st1))"
    if "Dismiss (now st) \<notin> set later" and "now (run later ?st1) < now st + 5000" for later
    using ok1 enqueued that by (intro stays_run) simp_all
  have gone: "?n \<notin> set (notifications (run later ?st1))"
    if late: "now st + 5000 \<le> now (run later ?st1)" for later
  proof
    assume "?n \<in> set (notifications (run later ?st1))"
    with young [OF queue_ok_run [OF ok1]] have "now (run later ?st1) < nid ?n + 5000"
      by blast
    with late show False by simp
  qed
  have exact: "?n \<in> set (notifications (elapse d ?st1)) \<longleftrightarrow> d < 5000"
  proof
    assume "?n \<in> set (notifications (elapse d ?st1))"
    with gone [of "[Elapse d]"] have "\<not> now st + 5000 \<le> now (run [Elapse d] ?st1)"
      by (auto simp add: run_simps)
    then show "d < 5000"
      by (simp add: run_simps elapse_fields addNotification_fields)
  next
    assume "d < 5000"
    with kept [of "[Elapse d]"] show "?n \<in> set (notifications (elapse d ?st1))"
      by (simp add: run_simps elapse_fields addNotification_fields)
  qed
  have empty: "notifications (run later ?st1) = []"
    if quiet: "no_enqueue later" and late: "now ?st1 + 5000 \<le> now (run later ?st1)"
  proof (rule ccontr)
    assume "notifications (run later ?st1) \<noteq> []"
    then obtain n where n: "n \<in> set (notifications (run later ?st1))"
      by (cases "notifications (run later ?st1)") auto
    have "\<forall>n \<in> set (notifications ?st1). nid n \<le> now ?st1"
      using ok1 by (simp add: queue_ok_def)
    with quiet have "\<forall>n \<in> set (notifications (run later ?st1)). nid n \<le> now ?st1"
      by (rule bounded_run)
    with n have "nid n \<le> now ?st1" by blast
    moreover from young [OF queue_ok_run [OF ok1] n] have "now (run later ?st1) < nid n + 5000"
      by blast
    ultimately show False using late by simp
  qed
  from appended exact kept gone empty show ?thesis by blast
qed

theorem notification_lifetime_witness:
  "\<lparr>nid = 3000, message = JStr ''Task updated successfully!'', ntype = ''success''\<rparr>
      \<in> set (notifications (run [Elapse 2000, Enqueue (JStr ''Task created successfully!'') ''success'', Elapse 2999]
            (addNotification (JStr ''Task updated successfully!'') ''success''
              (run [Enqueue (JStr ''Login successful!'') ''success'', Elapse 2000]
                (initial Map.empty unlimited 1000 :: unit app)))))
   \<and> \<lparr>nid = 3000, message = JStr ''Task updated successfully!'', ntype = ''success''\<rparr>
      \<notin> set (notifications (run [Elapse 2000, Enqueue (JStr ''Task created successfully!'') ''success'', Elapse 3000]
            (addNotification (JStr ''Task updated successfully!'') ''success''
              (run [Enqueue (JStr ''Login successful!'') ''success'', Elapse 2000]
                (initial Map.empty unlimited 1000 :: unit app)))))
   \<and> \<lparr>nid = 3000, message = JStr ''Task updated successfully!'', ntype = ''success''\<rparr>
      \<in> set (notifications (elapse 4999 (addNotification (JStr ''Task updated successfully!'') ''success''
            (run [Enqueue (JStr ''Login successful!'') ''success'', Elapse 2000]
              (initial Map.empty unlimited 1000 :: unit app)))))
   \<and> notifications (run [Dismiss 1000, Elapse 5000]
          (addNotification (JStr ''Task updated successfully!'') ''success''
            (run [Enqueue (JStr ''Login successful!'') ''success'', Elapse 2000]
              (initial Map.empty unlimited 1000 :: unit app))))
       = []"
proof -
  define st0 :: "unit app" where "st0 = initial Map.empty unlimited 1000"
  define st where "st = run [Enqueue (JStr ''Login successful!'') ''success'', Elapse 2000] st0"
  define st1 where "st1 = addNotification (JStr ''Task updated successfully!'') ''success'' st"
  let ?busy = "[Elapse 2000, Enqueue (JStr ''Task created successfully!'') ''success'', Elapse 2999]"
  let ?over = "[Elapse 2000, Enqueue (JStr ''Task created successfully!'') ''success'', Elapse 3000]"
  let ?quiet = "[Dismiss 1000, Elapse 5000]"
  have m: "mounted st0"
    by (simp add: st0_def mounted_def initial_def)
  have t: "now st = 3000"
    by (simp add: st_def st0_def run_simps elapse_fields addNotification_fields initial_def)
  have t1: "now st1 = 3000"
    by (simp add: st1_def addNotification_fields t)
  have busy: "Dismiss (now st) \<notin> set ?busy \<and> now (run ?busy st1) < now st + 5000"
    by (simp add: run_simps elapse_fields addNotification_fields t t1)
  have over: "now st + 5000 \<le> now (run ?over st1)"
    by (simp add: run_simps elapse_fields addNotification_fields t t1)
  have quiet: "no_enqueue ?quiet \<and> now st1 + 5000 \<le> now (run ?quiet st1)"
    by (simp add: no_enqueue_def run_simps elapse_fields removeNotification_fields t1)
  note life = notification_lifetime [OF m st_def, of "JStr ''Task updated successfully!''" "''success''"]
  from life [of _ ?busy] busy
  have a: "\<lparr>nid = now st, message = JStr ''Task updated successfully!'', ntype = ''success''\<rparr>
      \<in> set (notifications (run ?busy st1))"
    unfolding st1_def by blast
  from life [of _ ?over] over
  have b: "\<lparr>nid = now st, message = JStr ''Task updated successfully!'', ntype = ''success''\<rparr>
      \<notin> set (notifications (run ?over st1))"
    unfolding st1_def by blast
  from life [of 4999]
  have c: "\<lparr>nid = now st, message = JStr ''Task updated successfully!'', ntype = ''success''\<rparr>
      \<in> set (notifications (elapse 4999 st1))"
    unfolding st1_def by simp
  from life [of _ ?quiet] quiet
  have d: "notifications (run ?quiet st1) = []"
    unfolding st1_def by blast
  from a b c d show ?thesis
    unfolding t unfolding st1_def st_def st0_def by blast
qed

end
